theory Spec2Isabelle
  imports Complex_Main "HOL-Library.AList"
begin

section \<open>Conventions of the embedding\<close>

text \<open>
  The program is a set of page components over a hosted document store. Each handler is
  embedded as a function from the data it reads (the subscribed snapshots, the form data)
  to the data it writes. Amounts of money and decimal quantities are JavaScript numbers in
  the source; they are embedded as exact rationals, unit counts (validated as integers by
  the form schemas) as integers. Rounding of binary floating point is outside the model.

  The JavaScript idiom \<^verbatim>\<open>x || 0\<close> on a possibly missing number is \<open>orZero\<close>.
\<close>

fun orZero :: "'a::zero option \<Rightarrow> 'a" where
  "orZero None = 0"
| "orZero (Some v) = v"

section \<open>Cash session (caja/page.tsx)\<close>

datatype paymentMethod = Efectivo | Tarjeta | Transferencia | CuentaCorriente

record sale =
  sale_id :: string
  sale_total :: rat
  sale_paymentMethod :: paymentMethod
  sale_timestamp :: string

record expense =
  exp_id :: string
  exp_description :: string
  exp_amount :: rat
  exp_timestamp :: string

record countedTotals =
  ct_Efectivo :: rat
  ct_Tarjeta :: rat
  ct_Transferencia :: rat

record cashSession =
  cs_id :: string
  cs_user :: string
  cs_openingTime :: string
  cs_initialAmount :: rat
  cs_sales :: "sale list"
  cs_expenses :: "expense list"
  cs_closingTime :: "string option"
  cs_countedTotals :: "countedTotals option"
  cs_observations :: "string option"

record closeBoxFormData =
  countedEfectivo :: rat
  countedTarjeta :: rat
  countedTransferencia :: rat
  observations :: "string option"









text \<open>
  The two collections of the page. \<^verbatim>\<open>handleCloseBox\<close> writes the closed session to
  the history under the session's id and deletes the live document; the closing time is
  the clock reading, a parameter here.
\<close>

record cajaDb =
  caja_sessions :: "cashSession list"
  caja_history :: "cashSession list"

definition currentSession :: "cajaDb \<Rightarrow> cashSession option" where
  "currentSession db = (case caja_sessions db of [] \<Rightarrow> None | d # _ \<Rightarrow> Some d)"

fun setSessionDoc :: "cashSession \<Rightarrow> cashSession list \<Rightarrow> cashSession list" where
  "setSessionDoc d [] = [d]"
| "setSessionDoc d (x # xs) = (if cs_id x = cs_id d then d # xs else x # setSessionDoc d xs)"

definition handleCloseBox :: "string \<Rightarrow> closeBoxFormData \<Rightarrow> cajaDb \<Rightarrow> cajaDb" where
  "handleCloseBox now data db =
     (case currentSession db of
        None \<Rightarrow> db
      | Some session \<Rightarrow>
          (let closedSession = session
                 \<lparr>cs_closingTime := Some now,
                  cs_countedTotals := Some \<lparr>ct_Efectivo = countedEfectivo data,
                                            ct_Tarjeta = countedTarjeta data,
                                            ct_Transferencia = countedTransferencia data\<rparr>,
                  cs_observations := observations data\<rparr>
           in \<lparr>caja_sessions = filter (\<lambda>d. cs_id d \<noteq> cs_id session) (caja_sessions db),
               caja_history = setSessionDoc closedSession (caja_history db)\<rparr>))"







section \<open>The document store\<close>

text \<open>
  A collection is the list of its documents; a document id occurs at most once in a real
  collection. \<open>updateDoc\<close> changes the document with the given id and fails when there is
  none, as the store's update does; \<open>addDoc\<close> appends a document under an id chosen by the
  store, a parameter here.
\<close>

fun updateDoc :: "('a \<Rightarrow> string) \<Rightarrow> string \<Rightarrow> ('a \<Rightarrow> 'a) \<Rightarrow> 'a list \<Rightarrow> 'a list option" where
  "updateDoc key i f [] = None"
| "updateDoc key i f (d # ds) =
     (if key d = i then Some (f d # ds) else map_option ((#) d) (updateDoc key i f ds))"

text \<open>Decimal rendering of a number inside a template string, and \<^verbatim>\<open>padStart\<close>.\<close>

definition digitChar :: "nat \<Rightarrow> char" where
  "digitChar n = ''0123456789'' ! n"

function showNat :: "nat \<Rightarrow> string" where
  "showNat n = (if n < 10 then [digitChar n] else showNat (n div 10) @ [digitChar (n mod 10)])"
  by pat_completeness auto
termination
  by (relation "measure id") auto

declare showNat.simps [simp del]

definition padStart :: "nat \<Rightarrow> char \<Rightarrow> string \<Rightarrow> string" where
  "padStart n c s = replicate (n - length s) c @ s"

section \<open>Invoices and billable items\<close>

datatype billableType = PosSale | DeliveryOrder

datatype invoiceType = TypeA | TypeB | TypeC | Ticket

datatype invoiceStatus = Pendiente | Pagada | Vencida | Anulada

datatype invoicePaymentMethod = PagoEfectivo | PagoTarjeta | PagoTransferencia | PagoCheque

record billableLine =
  bl_productName :: string
  bl_quantity :: int
  bl_price :: rat

text \<open>
  The fields of a stored billable-item document. Both creators of such documents (the
  on-account branches of the point of sale and of the delivery orders) write an
  \<^verbatim>\<open>id\<close> field of their own into the data and let the store choose the document id,
  so the data's id is a field apart from the document id.
\<close>

record billableData =
  bd_id :: "string option"
  bd_date :: string
  bd_customerId :: string
  bd_customerName :: string
  bd_items :: "billableLine list"
  bd_total :: rat
  bd_type :: billableType
  bd_invoiced :: bool
  bd_invoiceId :: "string option"

record billableDoc =
  doc_id :: string
  doc_data :: billableData

record billableItem =
  bi_id :: string
  bi_date :: string
  bi_customerId :: string
  bi_customerName :: string
  bi_items :: "billableLine list"
  bi_total :: rat
  bi_type :: billableType
  bi_invoiced :: bool
  bi_invoiceId :: "string option"

text \<open>
  \<^verbatim>\<open>mapDocTo\<close> returns \<^verbatim>\<open>{ id: doc.id, ...data }\<close>: a field \<^verbatim>\<open>id\<close> of the data
  overrides the document id.
\<close>

definition mapDocTo :: "billableDoc \<Rightarrow> billableItem" where
  "mapDocTo d =
     (let data = doc_data d in
      \<lparr>bi_id = (case bd_id data of Some i \<Rightarrow> i | None \<Rightarrow> doc_id d),
       bi_date = bd_date data, bi_customerId = bd_customerId data,
       bi_customerName = bd_customerName data, bi_items = bd_items data,
       bi_total = bd_total data, bi_type = bd_type data,
       bi_invoiced = bd_invoiced data, bi_invoiceId = bd_invoiceId data\<rparr>)"

record payment =
  pay_id :: string
  pay_date :: string
  pay_amount :: rat
  pay_method :: invoicePaymentMethod

record invoiceItem =
  ii_description :: string
  ii_quantity :: int
  ii_price :: rat
  ii_total :: rat

record invoice =
  inv_id :: string
  inv_type :: invoiceType
  inv_sequentialId :: string
  inv_customerId :: string
  inv_customerName :: string
  inv_date :: string
  inv_dueDate :: string
  inv_items :: "invoiceItem list"
  inv_total :: rat
  inv_status :: invoiceStatus
  inv_payments :: "payment list"
  inv_sourceSaleIds :: "string list"

record client =
  cl_id :: string
  cl_name :: string

record generateInvoiceData =
  gi_customerId :: string
  gi_invoiceType :: invoiceType
  gi_issueDate :: string
  gi_dueDate :: string
  gi_selectedSales :: "string list"

record invoiceDb =
  db_invoices :: "invoice list"
  db_billable :: "billableDoc list"
  db_clients :: "client list"

text \<open>
  The write batch of \<^verbatim>\<open>handleGenerateInvoice\<close>: one \<^verbatim>\<open>set\<close> of the new invoice and
  one \<^verbatim>\<open>update\<close> per selected id, addressed by document id. The batch commits as a
  whole or not at all; an update of a document that does not exist makes it fail.
\<close>

definition flagInvoiced :: "string \<Rightarrow> billableDoc \<Rightarrow> billableDoc" where
  "flagInvoiced invoiceId d =
     d\<lparr>doc_data := (doc_data d)\<lparr>bd_invoiced := True, bd_invoiceId := Some invoiceId\<rparr>\<rparr>"

fun batchFlag :: "string \<Rightarrow> string list \<Rightarrow> billableDoc list \<Rightarrow> billableDoc list option" where
  "batchFlag invoiceId [] docs = Some docs"
| "batchFlag invoiceId (saleId # rest) docs =
     (case updateDoc doc_id saleId (flagInvoiced invoiceId) docs of
        None \<Rightarrow> None
      | Some docs' \<Rightarrow> batchFlag invoiceId rest docs')"

datatype generateOutcome = NothingToInvoice | CustomerMissing | BatchFailed | InvoiceGenerated

definition invoiceItemsOf :: "billableItem list \<Rightarrow> invoiceItem list" where
  "invoiceItemsOf salesToInvoice =
     concat (map (\<lambda>s. map (\<lambda>i. \<lparr>ii_description = bl_productName i, ii_quantity = bl_quantity i,
                                   ii_price = bl_price i,
                                   ii_total = of_int (bl_quantity i) * bl_price i\<rparr>) (bi_items s))
               salesToInvoice)"

text \<open>
  \<open>newId\<close> is the id the store chooses for the invoice document. The customer lookup is
  asserted non-null in the source and its name read outside the \<^verbatim>\<open>try\<close>: a missing
  customer throws before anything is written. A failed batch is caught and reported, and
  nothing is written.
\<close>

definition handleGenerateInvoice :: "string \<Rightarrow> generateInvoiceData \<Rightarrow> invoiceDb \<Rightarrow> generateOutcome \<times> invoiceDb" where
  "handleGenerateInvoice newId data db =
     (let billableItems = map mapDocTo (db_billable db);
          salesToInvoice = filter (\<lambda>item. bi_id item \<in> set (gi_selectedSales data)) billableItems
      in if length salesToInvoice = 0 then (NothingToInvoice, db)
         else
           (let total = foldl (\<lambda>sum item. sum + bi_total item) 0 salesToInvoice;
                items = invoiceItemsOf salesToInvoice
            in case find (\<lambda>c. cl_id c = gi_customerId data) (db_clients db) of
                 None \<Rightarrow> (CustomerMissing, db)
               | Some customer \<Rightarrow>
                   (let newInvoice =
                          \<lparr>inv_id = newId,
                           inv_type = gi_invoiceType data,
                           inv_sequentialId = padStart 8 (CHR ''0'') (showNat (length (db_invoices db) + 1)),
                           inv_customerId = gi_customerId data,
                           inv_customerName = cl_name customer,
                           inv_date = gi_issueDate data,
                           inv_dueDate = gi_dueDate data,
                           inv_items = items,
                           inv_total = total,
                           inv_status = Pendiente,
                           inv_payments = [],
                           inv_sourceSaleIds = gi_selectedSales data\<rparr>
                    in case batchFlag newId (gi_selectedSales data) (db_billable db) of
                         None \<Rightarrow> (BatchFailed, db)
                       | Some docs' \<Rightarrow>
                           (InvoiceGenerated,
                            db\<lparr>db_invoices := db_invoices db @ [newInvoice],
                               db_billable := docs'\<rparr>))))"

text \<open>
  The billable item the point of sale writes when a sale goes on a customer's account
  (\<^verbatim>\<open>handleAddToCustomerAccount\<close> in ventas/page.tsx): the data carries the id
  \<^verbatim>\<open>BS-<clock>\<close>, and \<^verbatim>\<open>addDoc\<close> stores it under a document id of the store's
  choosing.
\<close>

definition billableSale :: "nat \<Rightarrow> string \<Rightarrow> string \<Rightarrow> string \<Rightarrow> billableLine list \<Rightarrow> rat \<Rightarrow> billableData" where
  "billableSale clock isoNow customerId customerName items saleTotal =
     \<lparr>bd_id = Some (''BS-'' @ showNat clock), bd_date = isoNow, bd_customerId = customerId,
      bd_customerName = customerName, bd_items = items, bd_total = saleTotal, bd_type = PosSale,
      bd_invoiced = False, bd_invoiceId = None\<rparr>"

definition addBillableDoc :: "string \<Rightarrow> billableData \<Rightarrow> billableDoc list \<Rightarrow> billableDoc list" where
  "addBillableDoc autoId data docs = docs @ [\<lparr>doc_id = autoId, doc_data = data\<rparr>]"

text \<open>Registering a payment on an invoice (\<^verbatim>\<open>handleRegisterPayment\<close>).\<close>

datatype actionDialog = PaymentDialog string | StatementDialog string | GenerateDialog | ExpenseDialog






text \<open>
  A store as the point of sale leaves it after one sale of 150 on a customer's account,
  and the request to invoice that sale, selected by the id the page shows for it.
\<close>

definition posBillableDocs :: "billableDoc list" where
  "posBillableDocs =
     addBillableDoc ''k3Jx9'' (billableSale 1700000000000 ''2023-11-14T22:13:20.000Z'' ''c1'' ''Cliente''
        [\<lparr>bl_productName = ''Yerba'', bl_quantity = 3, bl_price = 50\<rparr>] 150) []"

definition posInvoiceDb :: invoiceDb where
  "posInvoiceDb = \<lparr>db_invoices = [], db_billable = posBillableDocs,
                    db_clients = [\<lparr>cl_id = ''c1'', cl_name = ''Cliente''\<rparr>]\<rparr>"

definition posInvoiceRequest :: generateInvoiceData where
  "posInvoiceRequest = \<lparr>gi_customerId = ''c1'', gi_invoiceType = TypeB, gi_issueDate = ''2023-11-15'',
      gi_dueDate = ''2023-12-15'', gi_selectedSales = [''BS-1700000000000'']\<rparr>"


section \<open>Sellers and consigned stock\<close>

text \<open>
  The catalogue product as the sellers page declares it. The point of sale declares more
  fields (code, type, unit, brand); none of them is read by the functions embedded here.
\<close>

record product =
  p_id :: string
  p_name :: string
  p_stock :: int
  p_price :: rat
  p_image :: string
  p_dataAiHint :: "string option"

record assignedProduct =
  ap_productId :: string
  ap_name :: string
  ap_quantity :: int

record sellerSaleItem =
  ssi_productId :: string
  ssi_quantity :: int
  ssi_price :: rat
  ssi_originalPrice :: rat
  ssi_discountPercentage :: rat

record sellerSale =
  ss_id :: string
  ss_items :: "sellerSaleItem list"
  ss_total :: rat
  ss_timestamp :: string

datatype returnReason = NoVendido | Danado

record sellerReturn =
  sr_id :: string
  sr_productId :: string
  sr_quantity :: int
  sr_reason :: returnReason
  sr_timestamp :: string

record seller =
  sl_id :: string
  sl_name :: string
  sl_address :: "string option"
  sl_phone :: "string option"
  sl_assignedStock :: "assignedProduct list"
  sl_sales :: "sellerSale list"
  sl_returns :: "sellerReturn list"
  sl_balance :: rat

record stockEntry =
  se_name :: string
  se_quantity :: int
  se_price :: rat
  se_image :: string
  se_dataAiHint :: "string option"

record sellerStockRow =
  row_productId :: string
  row_name :: string
  row_quantity :: int
  row_price :: rat
  row_image :: string
  row_dataAiHint :: "string option"

text \<open>
  \<^verbatim>\<open>stockMap\<close> is a \<^verbatim>\<open>Map\<close>: keys in insertion order, \<^verbatim>\<open>set\<close> on a present key
  keeps its place. The three loops of \<^verbatim>\<open>calculateSellerStock\<close> follow: assignments
  (only for products found in the catalogue), sale items, returns.
\<close>

type_synonym stockMap = "(string \<times> stockEntry) list"

definition assignStep :: "product list \<Rightarrow> stockMap \<Rightarrow> assignedProduct \<Rightarrow> stockMap" where
  "assignStep localProducts stockMap item =
     (case find (\<lambda>p. p_id p = ap_productId item) localProducts of
        None \<Rightarrow> stockMap
      | Some productInfo \<Rightarrow>
          (let currentQty = orZero (map_option se_quantity (map_of stockMap (ap_productId item)))
           in AList.update (ap_productId item)
                \<lparr>se_name = ap_name item, se_quantity = currentQty + ap_quantity item,
                 se_price = p_price productInfo, se_image = p_image productInfo,
                 se_dataAiHint = p_dataAiHint productInfo\<rparr> stockMap))"

definition subtractQuantity :: "stockMap \<Rightarrow> string \<Rightarrow> int \<Rightarrow> stockMap" where
  "subtractQuantity stockMap productId q =
     (case map_of stockMap productId of
        None \<Rightarrow> stockMap
      | Some e \<Rightarrow> AList.update productId (e\<lparr>se_quantity := se_quantity e - q\<rparr>) stockMap)"

definition saleStep :: "stockMap \<Rightarrow> sellerSale \<Rightarrow> stockMap" where
  "saleStep stockMap sale =
     foldl (\<lambda>m item. subtractQuantity m (ssi_productId item) (ssi_quantity item)) stockMap (ss_items sale)"

definition returnStep :: "stockMap \<Rightarrow> sellerReturn \<Rightarrow> stockMap" where
  "returnStep stockMap ret = subtractQuantity stockMap (sr_productId ret) (sr_quantity ret)"

definition toRow :: "string \<times> stockEntry \<Rightarrow> sellerStockRow" where
  "toRow kv =
     \<lparr>row_productId = fst kv, row_name = se_name (snd kv), row_quantity = se_quantity (snd kv),
      row_price = se_price (snd kv), row_image = se_image (snd kv),
      row_dataAiHint = se_dataAiHint (snd kv)\<rparr>"

definition sellerStockMap :: "seller \<Rightarrow> product list \<Rightarrow> stockMap" where
  "sellerStockMap s localProducts =
     foldl returnStep
       (foldl saleStep
          (foldl (assignStep localProducts) [] (sl_assignedStock s))
          (sl_sales s))
       (sl_returns s)"

definition calculateSellerStock :: "seller option \<Rightarrow> product list \<Rightarrow> sellerStockRow list" where
  "calculateSellerStock sellerOpt localProducts =
     (case sellerOpt of
        None \<Rightarrow> []
      | Some s \<Rightarrow> filter (\<lambda>p. row_quantity p > 0) (map toRow (sellerStockMap s localProducts)))"

text \<open>The specification's wording: assigned minus sold minus returned, per product.\<close>

definition assignedQty :: "seller \<Rightarrow> string \<Rightarrow> int" where
  "assignedQty s pid =
     sum_list (map ap_quantity (filter (\<lambda>a. ap_productId a = pid) (sl_assignedStock s)))"

definition soldQty :: "seller \<Rightarrow> string \<Rightarrow> int" where
  "soldQty s pid =
     sum_list (map ssi_quantity (filter (\<lambda>i. ssi_productId i = pid) (concat (map ss_items (sl_sales s)))))"

definition returnedQty :: "seller \<Rightarrow> string \<Rightarrow> int" where
  "returnedQty s pid =
     sum_list (map sr_quantity (filter (\<lambda>r. sr_productId r = pid) (sl_returns s)))"

definition consignedQty :: "seller \<Rightarrow> string \<Rightarrow> int" where
  "consignedQty s pid = assignedQty s pid - soldQty s pid - returnedQty s pid"

definition inCatalogue :: "product list \<Rightarrow> string \<Rightarrow> bool" where
  "inCatalogue ps pid = (find (\<lambda>p. p_id p = pid) ps \<noteq> None)"

definition isAssigned :: "seller \<Rightarrow> string \<Rightarrow> bool" where
  "isAssigned s pid = (pid \<in> ap_productId ` set (sl_assignedStock s))"

text \<open>The quantity held in the map for one product, if any.\<close>

definition qtyOf :: "stockMap \<Rightarrow> string \<Rightarrow> int option" where
  "qtyOf m pid = map_option se_quantity (map_of m pid)"





text \<open>The seller of the specification's example, and a catalogue holding the product.\<close>

definition exampleSeller :: seller where
  "exampleSeller =
     \<lparr>sl_id = ''v1'', sl_name = ''Vendedor'', sl_address = None, sl_phone = None,
      sl_assignedStock = [\<lparr>ap_productId = ''P'', ap_name = ''Yerba'', ap_quantity = 10\<rparr>],
      sl_sales = [\<lparr>ss_id = ''SELLSALE-1'',
                   ss_items = [\<lparr>ssi_productId = ''P'', ssi_quantity = 3, ssi_price = 50,
                                ssi_originalPrice = 50, ssi_discountPercentage = 0\<rparr>],
                   ss_total = 150, ss_timestamp = ''2024-01-02T10:00:00.000Z''\<rparr>],
      sl_returns = [\<lparr>sr_id = ''RET-1'', sr_productId = ''P'', sr_quantity = 1,
                     sr_reason = NoVendido, sr_timestamp = ''2024-01-03T10:00:00.000Z''\<rparr>],
      sl_balance = 300\<rparr>"

definition exampleCatalogue :: "product list" where
  "exampleCatalogue =
     [\<lparr>p_id = ''P'', p_name = ''Yerba'', p_stock = 40, p_price = 50, p_image = ''yerba.png'',
       p_dataAiHint = None\<rparr>]"



section \<open>Point of sale: combos, cart, delivery orders (ventas/page.tsx)\<close>

record comboProduct =
  cp_productId :: string
  cp_quantity :: int

text \<open>
  The component list is declared an array; the code also guards against its absence,
  hence the option.
\<close>

record combo =
  c_id :: string
  c_name :: string
  c_price :: rat
  c_image :: string
  c_products :: "comboProduct list option"
  c_active :: bool

text \<open>
  The number \<^verbatim>\<open>calculateComboStock\<close> returns. On integers the quotient
  \<^verbatim>\<open>Math.floor(stock / quantity)\<close> is the floor division, except for a zero
  quantity, where JavaScript gives \<^verbatim>\<open>Infinity\<close> (positive stock) or \<^verbatim>\<open>NaN\<close>
  (zero stock); the division is reached only with \<open>stock \<ge> quantity\<close>.
\<close>

datatype stockLevel = Finite int | Infinite | NotANumber

definition componentLevel :: "product list \<Rightarrow> comboProduct \<Rightarrow> stockLevel" where
  "componentLevel products comboProduct =
     (case find (\<lambda>p. p_id p = cp_productId comboProduct) products of
        None \<Rightarrow> Finite 0
      | Some product \<Rightarrow>
          if p_stock product < cp_quantity comboProduct then Finite 0
          else if cp_quantity comboProduct = 0
               then (if p_stock product = 0 then NotANumber else Infinite)
               else Finite (p_stock product div cp_quantity comboProduct))"

fun minLevel :: "stockLevel \<Rightarrow> stockLevel \<Rightarrow> stockLevel" where
  "minLevel NotANumber _ = NotANumber"
| "minLevel _ NotANumber = NotANumber"
| "minLevel Infinite y = y"
| "minLevel x Infinite = x"
| "minLevel (Finite a) (Finite b) = Finite (min a b)"

definition mathMin :: "stockLevel list \<Rightarrow> stockLevel" where
  "mathMin levels = foldl minLevel Infinite levels"

definition calculateComboStock :: "product list \<Rightarrow> combo \<Rightarrow> stockLevel" where
  "calculateComboStock products c =
     (case c_products c of
        None \<Rightarrow> Finite 0
      | Some cps \<Rightarrow>
          if length cps = 0 then Finite 0
          else mathMin (map (componentLevel products) cps))"

fun positiveLevel :: "stockLevel \<Rightarrow> bool" where
  "positiveLevel (Finite n) = (n > 0)"
| "positiveLevel Infinite = True"
| "positiveLevel NotANumber = False"

datatype saleableItem = SimpleItem product | ComboItem combo stockLevel

definition saleableItems :: "product list \<Rightarrow> combo list \<Rightarrow> saleableItem list" where
  "saleableItems products combos =
     (let activeProducts = map SimpleItem products;
          activeCombos =
            filter (\<lambda>i. case i of ComboItem c st \<Rightarrow> positiveLevel st | SimpleItem p \<Rightarrow> True)
              (map (\<lambda>c. ComboItem c (calculateComboStock products c)) (filter c_active combos))
      in activeProducts @ activeCombos)"

text \<open>
  The specification's wording for a combo: per component, the floor of stock over
  quantity; a component is short when its product is missing or its stock is below the
  quantity.
\<close>

definition floorLevel :: "product list \<Rightarrow> comboProduct \<Rightarrow> int" where
  "floorLevel products cp =
     (case find (\<lambda>p. p_id p = cp_productId cp) products of
        None \<Rightarrow> 0
      | Some product \<Rightarrow> p_stock product div cp_quantity cp)"

definition componentShort :: "product list \<Rightarrow> comboProduct \<Rightarrow> bool" where
  "componentShort products cp =
     (case find (\<lambda>p. p_id p = cp_productId cp) products of
        None \<Rightarrow> True
      | Some product \<Rightarrow> p_stock product < cp_quantity cp)"















datatype orderStatus = PedidoPendiente | PedidoEnReparto | PedidoEntregado | PedidoCancelado









text \<open>
  The level of one component when its quantity is positive: zero when the component is
  short, the floor quotient otherwise.
\<close>

definition shortOrFloor :: "product list \<Rightarrow> comboProduct \<Rightarrow> int" where
  "shortOrFloor products cp = (if componentShort products cp then 0 else floorLevel products cp)"




text \<open>A catalogue, combos over it, a cart and a delivery form.\<close>

definition exampleProducts :: "product list" where
  "exampleProducts =
     [\<lparr>p_id = ''A'', p_name = ''Yerba'', p_stock = 10, p_price = 50, p_image = ''a.png'',
       p_dataAiHint = None\<rparr>,
      \<lparr>p_id = ''B'', p_name = ''Mate'', p_stock = 5, p_price = 80, p_image = ''b.png'',
       p_dataAiHint = None\<rparr>]"

definition comboOf :: "comboProduct list option \<Rightarrow> combo" where
  "comboOf cps = \<lparr>c_id = ''K'', c_name = ''Combo'', c_price = 200, c_image = ''k.png'',
                  c_products = cps, c_active = True\<rparr>"

definition exampleComponents :: "comboProduct list" where
  "exampleComponents = [\<lparr>cp_productId = ''A'', cp_quantity = 3\<rparr>,
                        \<lparr>cp_productId = ''B'', cp_quantity = 2\<rparr>]"

definition shortComponents :: "comboProduct list" where
  "shortComponents = [\<lparr>cp_productId = ''A'', cp_quantity = 3\<rparr>,
                      \<lparr>cp_productId = ''Z'', cp_quantity = 1\<rparr>]"




section \<open>Supplier orders: receipt\<close>

datatype supplierOrderStatus = Borrador | Confirmado | EnTransito | Recibido | RecibidoParcial

record supplierOrderItem =
  soi_name :: string
  soi_quantity :: rat
  soi_unit :: string
  soi_price :: rat

record receivedItem =
  ri_name :: string
  ri_quantity :: rat
  ri_unit :: string

record supplierOrder =
  so_id :: string
  so_sequentialId :: string
  so_supplierId :: string
  so_supplierName :: string
  so_orderDate :: string
  so_items :: "supplierOrderItem list"
  so_total :: rat
  so_observations :: "string option"
  so_status :: supplierOrderStatus
  so_receivedDate :: "string option"
  so_receivedItems :: "receivedItem list option"

datatype stockCategory = Insumo | Envase | Etiqueta

record generalStockItem =
  gs_id :: string
  gs_name :: string
  gs_quantity :: rat
  gs_unit :: string
  gs_supplier :: "string option"
  gs_entryDate :: string
  gs_notes :: "string option"
  gs_category :: stockCategory

record receiveOrderItem =
  roi_name :: string
  roi_unit :: string
  roi_orderedQuantity :: rat
  roi_receivedQuantity :: rat

record suppliersDb =
  general_stock :: "generalStockItem list"
  supplier_orders :: "supplierOrder list"

text \<open>
  \<^verbatim>\<open>handleReceiveOrderSubmit\<close>. Every received line is written with \<^verbatim>\<open>addDoc\<close>, a new
  document each; \<open>idOf k\<close> is the id the store gives the \<open>k\<close>-th of them. The entry date
  is the date part of the clock reading. The stock documents are written first, the
  order second; when the order update fails the stock documents stay.
\<close>

definition newStockItems :: "(nat \<Rightarrow> string) \<Rightarrow> string \<Rightarrow> supplierOrder \<Rightarrow> receiveOrderItem list \<Rightarrow> generalStockItem list" where
  "newStockItems idOf isoNow orderToReceive items =
     (let receivedItemsForStock = filter (\<lambda>item. roi_receivedQuantity item > 0) items
      in map (\<lambda>(k, item).
                \<lparr>gs_id = idOf k, gs_name = roi_name item, gs_quantity = roi_receivedQuantity item,
                 gs_unit = roi_unit item, gs_supplier = Some (so_supplierName orderToReceive),
                 gs_entryDate = takeWhile (\<lambda>ch. ch \<noteq> CHR ''T'') isoNow,
                 gs_notes = Some (''Ingreso desde pedido a proveedor #'' @ so_sequentialId orderToReceive),
                 gs_category = Insumo\<rparr>)
             (enumerate 0 receivedItemsForStock))"

definition handleReceiveOrderSubmit :: "(nat \<Rightarrow> string) \<Rightarrow> string \<Rightarrow> supplierOrder option \<Rightarrow> receiveOrderItem list \<Rightarrow> suppliersDb \<Rightarrow> suppliersDb" where
  "handleReceiveOrderSubmit idOf isoNow orderToReceive items db =
     (case orderToReceive of
        None \<Rightarrow> db
      | Some otr \<Rightarrow>
          (let isPartial = list_ex (\<lambda>item. roi_receivedQuantity item < roi_orderedQuantity item) items;
               receivedItemsForHistory =
                 map (\<lambda>item. \<lparr>ri_name = roi_name item, ri_quantity = roi_receivedQuantity item,
                                ri_unit = roi_unit item\<rparr>) items;
               db1 = db\<lparr>general_stock := general_stock db @ newStockItems idOf isoNow otr items\<rparr>;
               newStatus = (if isPartial then RecibidoParcial else Recibido)
           in case updateDoc so_id (so_id otr)
                     (\<lambda>d. d\<lparr>so_status := newStatus, so_receivedDate := Some isoNow,
                            so_receivedItems := Some receivedItemsForHistory\<rparr>)
                     (supplier_orders db1) of
                None \<Rightarrow> db1
              | Some orders' \<Rightarrow> db1\<lparr>supplier_orders := orders'\<rparr>))"

text \<open>An order of two lines in transit, a stock holding one of its items already.\<close>

definition exampleOrder :: supplierOrder where
  "exampleOrder =
     \<lparr>so_id = ''o1'', so_sequentialId = ''000001'', so_supplierId = ''s1'',
      so_supplierName = ''Molino'', so_orderDate = ''2024-02-01'',
      so_items = [\<lparr>soi_name = ''Harina'', soi_quantity = 10, soi_unit = ''kg'', soi_price = 2\<rparr>,
                  \<lparr>soi_name = ''Azucar'', soi_quantity = 5, soi_unit = ''kg'', soi_price = 3\<rparr>],
      so_total = 35, so_observations = None, so_status = EnTransito,
      so_receivedDate = None, so_receivedItems = None\<rparr>"

definition exampleSuppliersDb :: suppliersDb where
  "exampleSuppliersDb =
     \<lparr>general_stock = [\<lparr>gs_id = ''g0'', gs_name = ''Harina'', gs_quantity = 4, gs_unit = ''kg'',
                         gs_supplier = None, gs_entryDate = ''2024-01-10'', gs_notes = None,
                         gs_category = Insumo\<rparr>],
      supplier_orders = [exampleOrder]\<rparr>"

definition receiptLines :: "rat \<Rightarrow> rat \<Rightarrow> receiveOrderItem list" where
  "receiptLines a b =
     [\<lparr>roi_name = ''Harina'', roi_unit = ''kg'', roi_orderedQuantity = 10, roi_receivedQuantity = a\<rparr>,
      \<lparr>roi_name = ''Azucar'', roi_unit = ''kg'', roi_orderedQuantity = 5, roi_receivedQuantity = b\<rparr>]"

definition exampleIds :: "nat \<Rightarrow> string" where
  "exampleIds k = ''g'' @ showNat (Suc k)"

section \<open>Proofs: cash session\<close>

lemma foldl_plus_sum_list: "foldl (\<lambda>acc x. acc + f x) a xs = (a::rat) + sum_list (map f xs)"
  by (induction xs arbitrary: a) simp_all









lemma handleCloseBox_deletes:
  assumes "currentSession db = Some s"
  shows "\<forall>d \<in> set (caja_sessions (handleCloseBox now c db)). cs_id d \<noteq> cs_id s"
  using assms by (simp add: handleCloseBox_def Let_def)







section \<open>Proofs: the document store\<close>

lemma updateDoc_find:
  assumes "find (\<lambda>d. key d = i) ds = Some d" and "key (f d) = i"
  shows "\<exists>ds'. updateDoc key i f ds = Some ds' \<and> find (\<lambda>d. key d = i) ds' = Some (f d)"
  using assms by (induction ds) (auto split: if_splits)


lemma updateDoc_keys:
  assumes "updateDoc key i f ds = Some ds'" and "\<And>d. key (f d) = key d"
  shows "map key ds' = map key ds"
  using assms by (induction ds arbitrary: ds') (auto split: if_splits)

lemma updateDoc_None: "updateDoc key i f ds = None \<longleftrightarrow> i \<notin> key ` set ds"
  by (induction ds) auto

lemma updateDoc_map:
  assumes "distinct (map key ds)" and "i \<in> key ` set ds"
  shows "updateDoc key i f ds = Some (map (\<lambda>d. if key d = i then f d else d) ds)"
  using assms
proof (induction ds)
  case Nil
  then show ?case by simp
next
  case (Cons d ds)
  show ?case
  proof (cases "key d = i")
    case True
    with Cons.prems(1) have "i \<notin> key ` set ds" by auto
    then have "map (\<lambda>d. if key d = i then f d else d) ds = ds"
      by (induction ds) auto
    with True show ?thesis by simp
  next
    case False
    with Cons show ?thesis by auto
  qed
qed



section \<open>Proofs: invoices\<close>





lemma flagInvoiced_simps [simp]:
  "doc_id (flagInvoiced n d) = doc_id d"
  "flagInvoiced n (flagInvoiced n d) = flagInvoiced n d"
  "bd_invoiced (doc_data (flagInvoiced n d)) = True"
  "bd_invoiceId (doc_data (flagInvoiced n d)) = Some n"
  "bd_total (doc_data (flagInvoiced n d)) = bd_total (doc_data d)"
  by (simp_all add: flagInvoiced_def)

lemma batchFlag_map:
  assumes "distinct (map doc_id docs)" and "set sel \<subseteq> doc_id ` set docs"
  shows "batchFlag n sel docs
           = Some (map (\<lambda>d. if doc_id d \<in> set sel then flagInvoiced n d else d) docs)"
  using assms
proof (induction sel arbitrary: docs)
  case Nil
  then show ?case by simp
next
  case (Cons s sel)
  let ?g = "\<lambda>d. if doc_id d = s then flagInvoiced n d else d"
  have ids: "map doc_id (map ?g docs) = map doc_id docs"
    by (induction docs) auto
  have up: "updateDoc doc_id s (flagInvoiced n) docs = Some (map ?g docs)"
    using Cons.prems by (intro updateDoc_map) auto
  have "distinct (map doc_id (map ?g docs))" using Cons.prems(1) by (simp only: ids)
  moreover have "set sel \<subseteq> doc_id ` set (map ?g docs)"
  proof -
    have "doc_id ` set (map ?g docs) = set (map doc_id (map ?g docs))" by (simp only: set_map)
    also have "\<dots> = doc_id ` set docs" by (simp only: ids set_map)
    finally show ?thesis using Cons.prems(2) by auto
  qed
  ultimately have "batchFlag n sel (map ?g docs)
      = Some (map (\<lambda>d. if doc_id d \<in> set sel then flagInvoiced n d else d) (map ?g docs))"
    by (rule Cons.IH)
  with up show ?case by (auto simp: comp_def)
qed

lemma batchFlag_None:
  assumes "s \<in> set sel" and "s \<notin> doc_id ` set docs"
  shows "batchFlag n sel docs = None"
  using assms
proof (induction sel arbitrary: docs)
  case Nil
  then show ?case by simp
next
  case (Cons a sel)
  show ?case
  proof (cases "updateDoc doc_id a (flagInvoiced n) docs")
    case None
    then show ?thesis by simp
  next
    case (Some docs')
    then have a: "a \<noteq> s" using Cons.prems(2) updateDoc_None [of doc_id a "flagInvoiced n" docs] by auto
    have "map doc_id docs' = map doc_id docs"
      using Some by (rule updateDoc_keys) simp
    then have "doc_id ` set docs' = doc_id ` set docs" by (metis set_map)
    with Cons a Some show ?thesis by auto
  qed
qed


lemma mapDocTo_simps [simp]:
  "bi_total (mapDocTo d) = bd_total (doc_data d)"
  "bi_invoiced (mapDocTo d) = bd_invoiced (doc_data d)"
  "bi_invoiceId (mapDocTo d) = bd_invoiceId (doc_data d)"
  "bi_id (mapDocTo d) = (case bd_id (doc_data d) of Some i \<Rightarrow> i | None \<Rightarrow> doc_id d)"
  by (simp_all add: mapDocTo_def Let_def)

lemma filter_view_ids:
  assumes "\<forall>d\<in>set docs. bd_id (doc_data d) = None"
  shows "filter (\<lambda>item. bi_id item \<in> S) (map mapDocTo docs)
           = map mapDocTo (filter (\<lambda>d. doc_id d \<in> S) docs)"
  using assms by (induction docs) auto

lemma handleGenerateInvoice_document_ids:
  assumes ids: "\<forall>d\<in>set (db_billable db). bd_id (doc_data d) = None"
    and dist: "distinct (map doc_id (db_billable db))"
    and sel: "set (gi_selectedSales data) \<subseteq> doc_id ` set (db_billable db)"
    and ne: "gi_selectedSales data \<noteq> []"
    and cust: "find (\<lambda>c. cl_id c = gi_customerId data) (db_clients db) = Some customer"
  shows "\<exists>ni. handleGenerateInvoice newId data db
                 = (InvoiceGenerated,
                    db\<lparr>db_invoices := db_invoices db @ [ni],
                       db_billable := map (\<lambda>d. if doc_id d \<in> set (gi_selectedSales data)
                                                then flagInvoiced newId d else d) (db_billable db)\<rparr>)
           \<and> inv_id ni = newId
           \<and> inv_total ni = sum_list (map (\<lambda>d. bd_total (doc_data d))
                                 (filter (\<lambda>d. doc_id d \<in> set (gi_selectedSales data)) (db_billable db)))
           \<and> inv_sourceSaleIds ni = gi_selectedSales data
           \<and> inv_status ni = Pendiente \<and> inv_payments ni = []"
proof -
  let ?sel = "gi_selectedSales data"
  let ?chosen = "filter (\<lambda>d. doc_id d \<in> set ?sel) (db_billable db)"
  have sales: "filter (\<lambda>item. bi_id item \<in> set ?sel) (map mapDocTo (db_billable db))
                 = map mapDocTo ?chosen"
    using ids by (rule filter_view_ids)
  obtain s where "s \<in> set ?sel" using ne by (cases ?sel) auto
  with sel obtain d where "d \<in> set (db_billable db)" "doc_id d \<in> set ?sel" by auto
  then have "d \<in> set ?chosen" by simp
  then have nonempty: "?chosen \<noteq> []" by (auto simp: filter_empty_conv)
  have tot: "foldl (\<lambda>sum item. sum + bi_total item) 0 (map mapDocTo ?chosen)
               = sum_list (map (\<lambda>d. bd_total (doc_data d)) ?chosen)"
    by (simp add: foldl_plus_sum_list comp_def)
  have batch: "batchFlag newId ?sel (db_billable db)
                 = Some (map (\<lambda>d. if doc_id d \<in> set ?sel then flagInvoiced newId d else d) (db_billable db))"
    using dist sel by (rule batchFlag_map)
  let ?ni = "\<lparr>inv_id = newId, inv_type = gi_invoiceType data,
               inv_sequentialId = padStart 8 (CHR ''0'') (showNat (length (db_invoices db) + 1)),
               inv_customerId = gi_customerId data, inv_customerName = cl_name customer,
               inv_date = gi_issueDate data, inv_dueDate = gi_dueDate data,
               inv_items = invoiceItemsOf (map mapDocTo ?chosen),
               inv_total = sum_list (map (\<lambda>d. bd_total (doc_data d)) ?chosen),
               inv_status = Pendiente, inv_payments = [],
               inv_sourceSaleIds = gi_selectedSales data\<rparr>"
  have "handleGenerateInvoice newId data db
          = (InvoiceGenerated,
             db\<lparr>db_invoices := db_invoices db @ [?ni],
                db_billable := map (\<lambda>d. if doc_id d \<in> set ?sel then flagInvoiced newId d else d)
                                 (db_billable db)\<rparr>)"
    unfolding handleGenerateInvoice_def Let_def sales tot batch
    using nonempty cust by simp
  then show ?thesis
    by (intro exI [where x = ?ni]) simp
qed


lemma showNat_clock: "showNat 1700000000000 = ''1700000000000''"
  by (simp add: showNat.simps digitChar_def)

text \<open>
  When no stored billable item carries an id field of its own, so that the id the page
  shows is the document id, and the selected ids are ids of stored documents,
  \<^verbatim>\<open>handleGenerateInvoice\<close> does what C3 says: it flags exactly the selected documents
  with the new invoice's id, leaves the others as they were, and the invoice's total is
  the sum of the selected totals and its \<open>sourceSaleIds\<close> the selected ids. This is the
  lemma \<open>handleGenerateInvoice_document_ids\<close> above.

  C3 fails on the billable items the program itself creates. The point of sale writes
  \<^verbatim>\<open>id: BS-<clock>\<close> into the data and stores it under a document id chosen by the
  store; \<^verbatim>\<open>mapDocTo\<close> shows the data's id; the batch then updates the document
  \<^verbatim>\<open>billable-items/BS-<clock>\<close>, which does not exist, and fails as a whole: no
  invoice is created and the selected item stays uninvoiced.
\<close>

theorem handleGenerateInvoice_pos_sale_not_flagged:
  "map bi_id (map mapDocTo (db_billable posInvoiceDb)) = gi_selectedSales posInvoiceRequest
   \<and> handleGenerateInvoice ''inv1'' posInvoiceRequest posInvoiceDb = (BatchFailed, posInvoiceDb)
   \<and> map bi_invoiced (map mapDocTo (db_billable posInvoiceDb)) = [False]
   \<and> db_invoices posInvoiceDb = []"
  by (simp add: handleGenerateInvoice_def Let_def posInvoiceDb_def posInvoiceRequest_def
        posBillableDocs_def addBillableDoc_def billableSale_def showNat_clock)

section \<open>Proofs: consigned stock\<close>

lemma filter_absent: "k \<notin> f ` set xs \<Longrightarrow> filter (\<lambda>a. f a = k) xs = []"
  by (induction xs) auto

lemma qtyOf_assignStep:
  "qtyOf (assignStep ps m item) pid
     = (if inCatalogue ps (ap_productId item) \<and> ap_productId item = pid
        then Some (orZero (qtyOf m pid) + ap_quantity item) else qtyOf m pid)"
  by (auto simp: qtyOf_def assignStep_def inCatalogue_def Let_def update_conv' split: option.splits)

lemma qtyOf_assign_fold:
  "qtyOf (foldl (assignStep ps) m items) pid
     = (if inCatalogue ps pid \<and> pid \<in> ap_productId ` set items
        then Some (orZero (qtyOf m pid)
                     + sum_list (map ap_quantity (filter (\<lambda>a. ap_productId a = pid) items)))
        else qtyOf m pid)"
proof (induction items arbitrary: m)
  case Nil
  show ?case by simp
next
  case (Cons a items)
  have "qtyOf (foldl (assignStep ps) (a_m) items) pid
     = (if inCatalogue ps pid \<and> pid \<in> ap_productId ` set items
        then Some (orZero (qtyOf a_m pid)
                     + sum_list (map ap_quantity (filter (\<lambda>a. ap_productId a = pid) items)))
        else qtyOf a_m pid)" for a_m
    by (rule Cons.IH)
  then show ?case
    by (auto simp: qtyOf_assignStep filter_absent)
qed

lemma qtyOf_subtractQuantity:
  "qtyOf (subtractQuantity m p q) pid
     = (if p = pid then map_option (\<lambda>x. x - q) (qtyOf m pid) else qtyOf m pid)"
  by (auto simp: qtyOf_def subtractQuantity_def update_conv' split: option.splits)

lemma qtyOf_sale_items_fold:
  "qtyOf (foldl (\<lambda>m item. subtractQuantity m (ssi_productId item) (ssi_quantity item)) m items) pid
     = map_option (\<lambda>x. x - sum_list (map ssi_quantity (filter (\<lambda>i. ssi_productId i = pid) items)))
         (qtyOf m pid)"
proof (induction items arbitrary: m)
  case Nil
  show ?case by (simp add: option.map_ident)
next
  case (Cons a items)
  show ?case
    by (cases "qtyOf m pid") (simp_all add: Cons.IH qtyOf_subtractQuantity)
qed

lemma qtyOf_saleStep:
  "qtyOf (saleStep m sale) pid
     = map_option (\<lambda>x. x - sum_list (map ssi_quantity (filter (\<lambda>i. ssi_productId i = pid) (ss_items sale))))
         (qtyOf m pid)"
  by (simp add: saleStep_def qtyOf_sale_items_fold)

lemma qtyOf_sales_fold:
  "qtyOf (foldl saleStep m sales) pid
     = map_option (\<lambda>x. x - sum_list (map ssi_quantity
                           (filter (\<lambda>i. ssi_productId i = pid) (concat (map ss_items sales)))))
         (qtyOf m pid)"
proof (induction sales arbitrary: m)
  case Nil
  show ?case by (simp add: option.map_ident)
next
  case (Cons a sales)
  show ?case
    by (cases "qtyOf m pid") (simp_all add: Cons.IH qtyOf_saleStep)
qed

lemma qtyOf_returnStep:
  "qtyOf (returnStep m r) pid
     = (if sr_productId r = pid then map_option (\<lambda>x. x - sr_quantity r) (qtyOf m pid) else qtyOf m pid)"
  by (simp add: returnStep_def qtyOf_subtractQuantity)

lemma qtyOf_returns_fold:
  "qtyOf (foldl returnStep m rets) pid
     = map_option (\<lambda>x. x - sum_list (map sr_quantity (filter (\<lambda>r. sr_productId r = pid) rets)))
         (qtyOf m pid)"
proof (induction rets arbitrary: m)
  case Nil
  show ?case by (simp add: option.map_ident)
next
  case (Cons a rets)
  show ?case
    by (cases "qtyOf m pid") (simp_all add: Cons.IH qtyOf_returnStep)
qed

lemma qtyOf_sellerStockMap:
  "qtyOf (sellerStockMap s ps) pid
     = (if inCatalogue ps pid \<and> isAssigned s pid then Some (consignedQty s pid) else None)"
  unfolding sellerStockMap_def qtyOf_returns_fold qtyOf_sales_fold qtyOf_assign_fold
  by (simp add: qtyOf_def consignedQty_def assignedQty_def soldQty_def returnedQty_def isAssigned_def)


lemma distinct_assignStep:
  "distinct (map fst m) \<Longrightarrow> distinct (map fst (assignStep ps m a))"
  by (simp add: assignStep_def Let_def distinct_update split: option.splits)

lemma distinct_subtractQuantity:
  "distinct (map fst m) \<Longrightarrow> distinct (map fst (subtractQuantity m p q))"
  by (simp add: subtractQuantity_def distinct_update split: option.splits)

lemma distinct_foldl:
  assumes "\<And>m x. distinct (map fst m) \<Longrightarrow> distinct (map fst (f m x))"
    and "distinct (map fst m)"
  shows "distinct (map fst (foldl f m xs))"
  using assms(2) by (induction xs arbitrary: m) (simp_all add: assms(1))

lemma distinct_sellerStockMap: "distinct (map fst (sellerStockMap s ps))"
  unfolding sellerStockMap_def
  by (intro distinct_foldl) (simp_all add: distinct_assignStep returnStep_def saleStep_def
        distinct_subtractQuantity distinct_foldl)

lemma toRow_sel [simp]:
  "row_productId (toRow kv) = fst kv"
  "row_quantity (toRow kv) = se_quantity (snd kv)"
  by (simp_all add: toRow_def)



lemma row_in_stock:
  "row \<in> set (calculateSellerStock (Some s) ps)
     \<longleftrightarrow> (\<exists>e. map_of (sellerStockMap s ps) (row_productId row) = Some e
              \<and> row = toRow (row_productId row, e) \<and> se_quantity e > 0)"
proof
  have d: "distinct (map fst (sellerStockMap s ps))" by (rule distinct_sellerStockMap)
  {
    assume "row \<in> set (calculateSellerStock (Some s) ps)"
    then obtain kv where kv: "kv \<in> set (sellerStockMap s ps)" "row = toRow kv" "row_quantity row > 0"
      by (auto simp: calculateSellerStock_def)
    obtain k e where ke: "kv = (k, e)" by (cases kv)
    have "map_of (sellerStockMap s ps) k = Some e"
      using kv(1) ke d by simp
    with kv ke show "\<exists>e. map_of (sellerStockMap s ps) (row_productId row) = Some e
              \<and> row = toRow (row_productId row, e) \<and> se_quantity e > 0"
      by auto
  }
  {
    assume "\<exists>e. map_of (sellerStockMap s ps) (row_productId row) = Some e
              \<and> row = toRow (row_productId row, e) \<and> se_quantity e > 0"
    then obtain e where e: "map_of (sellerStockMap s ps) (row_productId row) = Some e"
        "row = toRow (row_productId row, e)" "se_quantity e > 0"
      by blast
    have "(row_productId row, e) \<in> set (sellerStockMap s ps)"
      using e(1) by (rule map_of_SomeD)
    then have "toRow (row_productId row, e) \<in> toRow ` set (sellerStockMap s ps)"
      by (rule imageI)
    moreover have "row_quantity row > 0" using e(2,3) by (metis toRow_sel(2) snd_conv)
    ultimately show "row \<in> set (calculateSellerStock (Some s) ps)"
      using e(2) by (simp add: calculateSellerStock_def)
  }
qed

lemma distinct_rows: "distinct (map row_productId (calculateSellerStock (Some s) ps))"
proof -
  have "map row_productId (filter (\<lambda>p. row_quantity p > 0) (map toRow m))
          = map fst (filter (\<lambda>kv. se_quantity (snd kv) > 0) m)" for m
    by (induction m) simp_all
  then show ?thesis
    using distinct_sellerStockMap [of s ps]
    by (simp add: calculateSellerStock_def distinct_map_filter)
qed


text \<open>
  C5, as stated, fails: \<^verbatim>\<open>calculateSellerStock\<close> enters an assignment only when its
  product is found in the catalogue it is given. For the seller of the example (10
  assigned, 3 sold, 1 returned) and a catalogue without the product, assigned minus sold
  minus returned is 6 and the derived list is empty.
\<close>

theorem calculateSellerStock_outside_catalogue_counterexample:
  "consignedQty exampleSeller ''P'' = 6 \<and> calculateSellerStock (Some exampleSeller) [] = []"
  by (simp add: consignedQty_def assignedQty_def soldQty_def returnedQty_def exampleSeller_def
        calculateSellerStock_def sellerStockMap_def assignStep_def saleStep_def returnStep_def
        subtractQuantity_def)

text \<open>
  C5, amended: for every seller and catalogue, every row of the derived list is for a
  product found in the catalogue and assigned to the seller, and its quantity is the sum
  of the assigned quantities minus the sum of the sold quantities minus the sum of the
  returned quantities of that product, and is positive; every product found in the
  catalogue and assigned to the seller for which this quantity is positive has a row; no
  product has two rows. For the seller with 10 of P assigned, 3 sold and 1 returned, and a
  catalogue holding P, the derived quantity of P is 6.
\<close>

theorem calculateSellerStock_consigned:
  "(\<forall>row \<in> set (calculateSellerStock (Some s) ps).
       inCatalogue ps (row_productId row) \<and> isAssigned s (row_productId row)
       \<and> row_quantity row = consignedQty s (row_productId row) \<and> row_quantity row > 0)
   \<and> (\<forall>pid. inCatalogue ps pid \<and> isAssigned s pid \<and> consignedQty s pid > 0
         \<longrightarrow> (\<exists>row \<in> set (calculateSellerStock (Some s) ps).
                row_productId row = pid \<and> row_quantity row = consignedQty s pid))
   \<and> distinct (map row_productId (calculateSellerStock (Some s) ps))
   \<and> map (\<lambda>r. (row_productId r, row_quantity r))
        (calculateSellerStock (Some exampleSeller) exampleCatalogue) = [(''P'', 6)]"
proof (intro conjI ballI allI impI)
  fix row assume r: "row \<in> set (calculateSellerStock (Some s) ps)"
  then obtain e where e: "map_of (sellerStockMap s ps) (row_productId row) = Some e"
      "row = toRow (row_productId row, e)" "se_quantity e > 0"
    by (auto simp: row_in_stock)
  have q: "row_quantity row = se_quantity e" using e(2) by (metis toRow_sel(2) snd_conv)
  have "Some (se_quantity e) = (if inCatalogue ps (row_productId row) \<and> isAssigned s (row_productId row)
            then Some (consignedQty s (row_productId row)) else None)"
    using qtyOf_sellerStockMap [of s ps "row_productId row"] e(1) by (simp add: qtyOf_def)
  then have "inCatalogue ps (row_productId row) \<and> isAssigned s (row_productId row)
       \<and> se_quantity e = consignedQty s (row_productId row)"
    by (auto split: if_splits)
  with q e(3) show "inCatalogue ps (row_productId row)" "isAssigned s (row_productId row)"
     "row_quantity row = consignedQty s (row_productId row)" "row_quantity row > 0"
    by simp_all
next
  fix pid assume a: "inCatalogue ps pid \<and> isAssigned s pid \<and> consignedQty s pid > 0"
  then have "map_option se_quantity (map_of (sellerStockMap s ps) pid) = Some (consignedQty s pid)"
    using qtyOf_sellerStockMap [of s ps pid] by (simp add: qtyOf_def)
  then obtain e where e: "map_of (sellerStockMap s ps) pid = Some e" "se_quantity e = consignedQty s pid"
    by auto
  let ?row = "toRow (pid, e)"
  have "?row \<in> set (calculateSellerStock (Some s) ps)"
    using e a by (simp add: row_in_stock)
  moreover have "row_productId ?row = pid \<and> row_quantity ?row = consignedQty s pid"
    using e by simp
  ultimately show "\<exists>row \<in> set (calculateSellerStock (Some s) ps).
                row_productId row = pid \<and> row_quantity row = consignedQty s pid"
    by blast
next
  show "distinct (map row_productId (calculateSellerStock (Some s) ps))" by (rule distinct_rows)
next
  show "map (\<lambda>r. (row_productId r, row_quantity r))
        (calculateSellerStock (Some exampleSeller) exampleCatalogue) = [(''P'', 6)]"
    by (simp add: calculateSellerStock_def sellerStockMap_def exampleSeller_def exampleCatalogue_def
          assignStep_def saleStep_def returnStep_def subtractQuantity_def toRow_def Let_def)
qed

theorem calculateSellerStock_consigned_witness:
  "inCatalogue exampleCatalogue ''P'' \<and> isAssigned exampleSeller ''P''
   \<and> consignedQty exampleSeller ''P'' > 0
   \<and> (\<exists>row \<in> set (calculateSellerStock (Some exampleSeller) exampleCatalogue).
         row_productId row = ''P'' \<and> row_quantity row = 6
         \<and> inCatalogue exampleCatalogue (row_productId row)
         \<and> isAssigned exampleSeller (row_productId row)
         \<and> row_quantity row = consignedQty exampleSeller (row_productId row))"
proof -
  have h: "inCatalogue exampleCatalogue ''P'' \<and> isAssigned exampleSeller ''P''
             \<and> consignedQty exampleSeller ''P'' > 0"
    and c: "consignedQty exampleSeller ''P'' = 6"
    by (simp_all add: inCatalogue_def isAssigned_def consignedQty_def assignedQty_def soldQty_def
          returnedQty_def exampleSeller_def exampleCatalogue_def)
  note inst = calculateSellerStock_consigned [of exampleSeller exampleCatalogue]
  from inst h obtain row where row: "row \<in> set (calculateSellerStock (Some exampleSeller) exampleCatalogue)"
      "row_productId row = ''P''" "row_quantity row = consignedQty exampleSeller ''P''"
    by blast
  from inst row(1) have "inCatalogue exampleCatalogue (row_productId row)
         \<and> isAssigned exampleSeller (row_productId row)
         \<and> row_quantity row = consignedQty exampleSeller (row_productId row)"
    by blast
  with row c h show ?thesis by auto
qed

section \<open>Proofs: seller returns\<close>




lemma isAssigned_returns [simp]: "isAssigned (s\<lparr>sl_returns := x\<rparr>) pid = isAssigned s pid"
  by (simp add: isAssigned_def)





section \<open>Proofs: combo stock\<close>

lemma componentLevel_positive_quantity:
  assumes "0 < cp_quantity cp"
  shows "componentLevel products cp = Finite (shortOrFloor products cp)"
  using assms
  by (simp add: componentLevel_def shortOrFloor_def componentShort_def floorLevel_def
        split: option.splits)

lemma foldl_minLevel_Finite:
  "foldl minLevel (Finite a) (map Finite xs) = Finite (Min (insert a (set xs)))"
proof (induction xs arbitrary: a)
  case Nil
  show ?case by simp
next
  case (Cons x xs)
  have "Min (insert (min a x) (set xs)) = Min (insert a (insert x (set xs)))"
    by (cases "set xs = {}") (simp_all add: min.assoc)
  with Cons.IH [of "min a x"] show ?case by simp
qed

lemma mathMin_Finite:
  assumes "xs \<noteq> []"
  shows "mathMin (map Finite xs) = Finite (Min (set xs))"
proof -
  obtain x rest where xs: "xs = x # rest" using assms by (cases xs) auto
  show ?thesis
    by (simp add: mathMin_def xs foldl_minLevel_Finite)
qed

lemma calculateComboStock_Min:
  assumes "c_products c = Some cps" and "cps \<noteq> []" and "\<forall>cp \<in> set cps. 0 < cp_quantity cp"
  shows "calculateComboStock products c = Finite (Min (shortOrFloor products ` set cps))"
proof -
  have "map (componentLevel products) cps = map Finite (map (shortOrFloor products) cps)"
    using assms(3) by (simp add: componentLevel_positive_quantity)
  then have "mathMin (map (componentLevel products) cps)
               = Finite (Min (set (map (shortOrFloor products) cps)))"
    using assms(2) by (simp only: mathMin_Finite map_is_Nil_conv not_False_eq_True)
  with assms(1,2) show ?thesis by (simp add: calculateComboStock_def)
qed

lemma shortOrFloor_nonneg:
  assumes "0 < cp_quantity cp"
  shows "0 \<le> shortOrFloor products cp"
    and "\<not> componentShort products cp \<Longrightarrow> 1 \<le> shortOrFloor products cp"
proof -
  show "\<not> componentShort products cp \<Longrightarrow> 1 \<le> shortOrFloor products cp"
  proof -
    assume ns: "\<not> componentShort products cp"
    then obtain p where p: "find (\<lambda>p. p_id p = cp_productId cp) products = Some p"
        "cp_quantity cp \<le> p_stock p"
      by (auto simp: componentShort_def split: option.splits)
    have "0 < p_stock p div cp_quantity cp"
      using assms p(2) by (simp add: pos_imp_zdiv_pos_iff)
    then have "1 \<le> p_stock p div cp_quantity cp" by simp
    with ns p show ?thesis by (simp add: shortOrFloor_def floorLevel_def)
  qed
  then show "0 \<le> shortOrFloor products cp"
    by (cases "componentShort products cp") (simp_all add: shortOrFloor_def)
qed

text \<open>
  C6: for every combo with a non-empty component list whose quantities are positive (the
  combo form admits positive integers only) and every stock assignment:
  when no component is short, the available stock is the minimum over the components of
  the floor of stock over quantity, and is at least 1; when some component's product is
  missing or has stock below the quantity, it is 0; and whenever no stock is negative it
  is the minimum of the floors, a missing product counting as 0. The function reads the
  products and the combo and returns a number: it is embedded as a function, which has no
  effect.
\<close>

theorem calculateComboStock_min_floor:
  assumes "c_products c = Some cps" and "cps \<noteq> []" and "\<forall>cp \<in> set cps. 0 < cp_quantity cp"
  shows "((\<forall>cp \<in> set cps. \<not> componentShort products cp) \<longrightarrow>
            calculateComboStock products c = Finite (Min (floorLevel products ` set cps))
            \<and> 1 \<le> Min (floorLevel products ` set cps))
         \<and> ((\<exists>cp \<in> set cps. componentShort products cp) \<longrightarrow>
              calculateComboStock products c = Finite 0)
         \<and> ((\<forall>p \<in> set products. 0 \<le> p_stock p) \<longrightarrow>
              calculateComboStock products c = Finite (Min (floorLevel products ` set cps)))"
proof -
  note m = calculateComboStock_Min [OF assms, of products]
  have fin: "finite (shortOrFloor products ` set cps)" "shortOrFloor products ` set cps \<noteq> {}"
    using assms(2) by simp_all
  have A: "(\<forall>cp \<in> set cps. \<not> componentShort products cp) \<longrightarrow>
            calculateComboStock products c = Finite (Min (floorLevel products ` set cps))
            \<and> 1 \<le> Min (floorLevel products ` set cps)"
  proof
    assume ns: "\<forall>cp \<in> set cps. \<not> componentShort products cp"
    then have eq: "shortOrFloor products ` set cps = floorLevel products ` set cps"
      by (intro image_cong) (simp_all add: shortOrFloor_def)
    have "\<forall>x \<in> shortOrFloor products ` set cps. 1 \<le> x"
      using ns assms(3) shortOrFloor_nonneg(2) by auto
    then have "1 \<le> Min (shortOrFloor products ` set cps)"
      using fin by simp
    with m eq show "calculateComboStock products c = Finite (Min (floorLevel products ` set cps))
            \<and> 1 \<le> Min (floorLevel products ` set cps)"
      by simp
  qed
  have B: "(\<exists>cp \<in> set cps. componentShort products cp) \<longrightarrow>
              calculateComboStock products c = Finite 0"
  proof
    assume "\<exists>cp \<in> set cps. componentShort products cp"
    then obtain cp where cp: "cp \<in> set cps" "componentShort products cp" by blast
    then have "0 \<in> shortOrFloor products ` set cps"
      by (force simp: shortOrFloor_def image_iff)
    moreover have "\<forall>x \<in> shortOrFloor products ` set cps. 0 \<le> x"
      using assms(3) shortOrFloor_nonneg(1) by auto
    ultimately have "Min (shortOrFloor products ` set cps) = 0"
      using fin(1) by (intro Min_eqI) auto
    with m show "calculateComboStock products c = Finite 0" by simp
  qed
  have C: "(\<forall>p \<in> set products. 0 \<le> p_stock p) \<longrightarrow>
              calculateComboStock products c = Finite (Min (floorLevel products ` set cps))"
  proof
    assume nn: "\<forall>p \<in> set products. 0 \<le> p_stock p"
    have "shortOrFloor products cp = floorLevel products cp" if "cp \<in> set cps" for cp
    proof (cases "find (\<lambda>p. p_id p = cp_productId cp) products")
      case None
      then show ?thesis by (simp add: shortOrFloor_def floorLevel_def)
    next
      case (Some p)
      then have "p \<in> set products" by (auto simp: find_Some_iff)
      with nn have "0 \<le> p_stock p" by simp
      then have "p_stock p < cp_quantity cp \<Longrightarrow> p_stock p div cp_quantity cp = 0"
        by (simp add: div_pos_pos_trivial)
      with Some show ?thesis
        by (auto simp: shortOrFloor_def floorLevel_def componentShort_def)
    qed
    then have "shortOrFloor products ` set cps = floorLevel products ` set cps"
      by (intro image_cong) simp_all
    with m show "calculateComboStock products c = Finite (Min (floorLevel products ` set cps))"
      by simp
  qed
  from A B C show ?thesis by (intro conjI)
qed

theorem calculateComboStock_min_floor_witness:
  "calculateComboStock exampleProducts (comboOf (Some exampleComponents)) = Finite 2
   \<and> Min (floorLevel exampleProducts ` set exampleComponents) = 2
   \<and> list_all (\<lambda>cp. 0 < cp_quantity cp \<and> \<not> componentShort exampleProducts cp) exampleComponents
   \<and> list_all (\<lambda>p. 0 \<le> p_stock p) exampleProducts
   \<and> (\<exists>cp \<in> set shortComponents. componentShort exampleProducts cp)
   \<and> calculateComboStock exampleProducts (comboOf (Some shortComponents)) = Finite 0"
proof -
  have c1: "c_products (comboOf (Some exampleComponents)) = Some exampleComponents"
    and c2: "c_products (comboOf (Some shortComponents)) = Some shortComponents"
    by (simp_all add: comboOf_def)
  have n1: "exampleComponents \<noteq> []" and n2: "shortComponents \<noteq> []"
    by (simp_all add: exampleComponents_def shortComponents_def)
  have q1: "\<forall>cp \<in> set exampleComponents. 0 < cp_quantity cp"
    and q2: "\<forall>cp \<in> set shortComponents. 0 < cp_quantity cp"
    by (simp_all add: exampleComponents_def shortComponents_def)
  have ns: "\<forall>cp \<in> set exampleComponents. \<not> componentShort exampleProducts cp"
    by (simp add: exampleComponents_def exampleProducts_def componentShort_def)
  have sh: "\<exists>cp \<in> set shortComponents. componentShort exampleProducts cp"
    by (simp add: shortComponents_def exampleProducts_def componentShort_def)
  have nn: "\<forall>p \<in> set exampleProducts. 0 \<le> p_stock p"
    by (simp add: exampleProducts_def)
  have mn: "Min (floorLevel exampleProducts ` set exampleComponents) = 2"
    by (simp add: exampleComponents_def exampleProducts_def floorLevel_def)
  from calculateComboStock_min_floor [OF c1 n1 q1, of exampleProducts] ns mn
  have r1: "calculateComboStock exampleProducts (comboOf (Some exampleComponents)) = Finite 2"
    by simp
  from calculateComboStock_min_floor [OF c2 n2 q2, of exampleProducts] sh
  have r2: "calculateComboStock exampleProducts (comboOf (Some shortComponents)) = Finite 0"
    by blast
  from q1 ns have la: "list_all (\<lambda>cp. 0 < cp_quantity cp \<and> \<not> componentShort exampleProducts cp) exampleComponents"
    by (simp add: list_all_iff)
  from nn have lb: "list_all (\<lambda>p. 0 \<le> p_stock p) exampleProducts"
    by (simp add: list_all_iff)
  from r1 mn la lb sh r2 show ?thesis by (intro conjI)
qed

text \<open>
  C10: for a combo whose component list is absent or empty, the available stock is 0
  (no minimum is taken), and the combo is not among the saleable items, whatever the
  products and the combos.
\<close>

theorem calculateComboStock_empty_not_saleable:
  assumes "c_products c = None \<or> c_products c = Some []"
  shows "calculateComboStock products c = Finite 0
         \<and> (\<forall>st. ComboItem c st \<notin> set (saleableItems products combos))"
proof -
  have z: "calculateComboStock products c = Finite 0"
    using assms by (auto simp: calculateComboStock_def)
  have "ComboItem c st \<notin> set (saleableItems products combos)" for st
  proof
    assume "ComboItem c st \<in> set (saleableItems products combos)"
    then have "st = calculateComboStock products c \<and> positiveLevel st"
      by (auto simp: saleableItems_def Let_def)
    with z show False by auto
  qed
  with z show ?thesis by simp
qed

theorem calculateComboStock_empty_not_saleable_witness:
  "(c_products (comboOf None) = None \<or> c_products (comboOf None) = Some [])
   \<and> calculateComboStock exampleProducts (comboOf None) = Finite 0
   \<and> (\<forall>st. ComboItem (comboOf None) st \<notin> set (saleableItems exampleProducts [comboOf None]))
   \<and> (c_products (comboOf (Some [])) = None \<or> c_products (comboOf (Some [])) = Some [])
   \<and> calculateComboStock exampleProducts (comboOf (Some [])) = Finite 0
   \<and> (\<forall>st. ComboItem (comboOf (Some [])) st
              \<notin> set (saleableItems exampleProducts [comboOf (Some [])]))"
proof -
  have h1: "c_products (comboOf None) = None \<or> c_products (comboOf None) = Some []"
    and h2: "c_products (comboOf (Some [])) = None \<or> c_products (comboOf (Some [])) = Some []"
    by (simp_all add: comboOf_def)
  from h1 h2
    calculateComboStock_empty_not_saleable [OF h1, of exampleProducts "[comboOf None]"]
    calculateComboStock_empty_not_saleable [OF h2, of exampleProducts "[comboOf (Some [])]"]
  show ?thesis by blast
qed

section \<open>Proofs: delivery orders\<close>






section \<open>Proofs: supplier order receipt\<close>

lemma newStockItems_lines:
  "map (\<lambda>g. (gs_name g, gs_quantity g, gs_unit g)) (newStockItems idOf isoNow otr items)
     = map (\<lambda>item. (roi_name item, roi_receivedQuantity item, roi_unit item))
         (filter (\<lambda>item. roi_receivedQuantity item > 0) items)"
proof -
  have "map (\<lambda>x. (roi_name (snd x), roi_receivedQuantity (snd x), roi_unit (snd x))) (enumerate n xs)
          = map (\<lambda>item. (roi_name item, roi_receivedQuantity item, roi_unit item)) xs"
    for n and xs :: "receiveOrderItem list"
    by (induction xs arbitrary: n) simp_all
  then show ?thesis
    by (simp add: newStockItems_def Let_def comp_def case_prod_beta)
qed

text \<open>
  C7: for an order found in the store, \<^verbatim>\<open>handleReceiveOrderSubmit\<close> appends to the
  general stock one new record for each line with a received quantity above zero, with
  that line's name, received quantity and unit, and leaves the records already there
  untouched (no merging by name); the stored order gets the status Recibido when no
  line's received quantity is below the ordered one (in particular when every line's
  received quantity equals the ordered one), the partial status when some line's is
  below, the received date, and the snapshot of the entered quantities of all lines.
\<close>

theorem handleReceiveOrderSubmit_receipt:
  assumes "find (\<lambda>d. so_id d = so_id otr) (supplier_orders db) = Some stored"
  shows "general_stock (handleReceiveOrderSubmit idOf isoNow (Some otr) items db)
           = general_stock db @ newStockItems idOf isoNow otr items
         \<and> map (\<lambda>g. (gs_name g, gs_quantity g, gs_unit g)) (newStockItems idOf isoNow otr items)
             = map (\<lambda>item. (roi_name item, roi_receivedQuantity item, roi_unit item))
                 (filter (\<lambda>item. roi_receivedQuantity item > 0) items)
         \<and> find (\<lambda>d. so_id d = so_id otr)
               (supplier_orders (handleReceiveOrderSubmit idOf isoNow (Some otr) items db))
             = Some (stored\<lparr>so_status := (if \<exists>item \<in> set items.
                                                 roi_receivedQuantity item < roi_orderedQuantity item
                                            then RecibidoParcial else Recibido),
                             so_receivedDate := Some isoNow,
                             so_receivedItems :=
                               Some (map (\<lambda>item. \<lparr>ri_name = roi_name item,
                                                    ri_quantity = roi_receivedQuantity item,
                                                    ri_unit = roi_unit item\<rparr>) items)\<rparr>)
         \<and> ((\<forall>item \<in> set items. roi_receivedQuantity item = roi_orderedQuantity item) \<longrightarrow>
              map_option so_status
                (find (\<lambda>d. so_id d = so_id otr)
                   (supplier_orders (handleReceiveOrderSubmit idOf isoNow (Some otr) items db)))
                = Some Recibido)
         \<and> ((\<exists>item \<in> set items. roi_receivedQuantity item < roi_orderedQuantity item) \<longrightarrow>
              map_option so_status
                (find (\<lambda>d. so_id d = so_id otr)
                   (supplier_orders (handleReceiveOrderSubmit idOf isoNow (Some otr) items db)))
                = Some RecibidoParcial)"
proof -
  let ?st = "if \<exists>item \<in> set items. roi_receivedQuantity item < roi_orderedQuantity item
             then RecibidoParcial else Recibido"
  let ?hist = "map (\<lambda>item. \<lparr>ri_name = roi_name item, ri_quantity = roi_receivedQuantity item,
                              ri_unit = roi_unit item\<rparr>) items"
  let ?f = "\<lambda>d::supplierOrder. d\<lparr>so_status := ?st, so_receivedDate := Some isoNow,
                                  so_receivedItems := Some ?hist\<rparr>"
  have key: "so_id (?f stored) = so_id otr"
    using assms by (auto dest: find_Some_iff [THEN iffD1])
  obtain os' where os': "updateDoc so_id (so_id otr) ?f (supplier_orders db) = Some os'"
      "find (\<lambda>d. so_id d = so_id otr) os' = Some (?f stored)"
    using updateDoc_find [OF assms, of ?f] key by blast
  have run: "handleReceiveOrderSubmit idOf isoNow (Some otr) items db
               = \<lparr>general_stock = general_stock db @ newStockItems idOf isoNow otr items,
                  supplier_orders = os'\<rparr>"
    using os'(1) by (simp add: handleReceiveOrderSubmit_def Let_def list_ex_iff)
  have eqs: "(\<forall>item \<in> set items. roi_receivedQuantity item = roi_orderedQuantity item) \<longrightarrow> ?st = Recibido"
    by auto
  show ?thesis
    unfolding run using os'(2) eqs by (simp add: newStockItems_lines)
qed

theorem handleReceiveOrderSubmit_receipt_witness:
  "find (\<lambda>d. so_id d = so_id exampleOrder) (supplier_orders exampleSuppliersDb) = Some exampleOrder
   \<and> (\<exists>item \<in> set (receiptLines 10 0). roi_receivedQuantity item < roi_orderedQuantity item)
   \<and> map (\<lambda>g. (gs_id g, gs_name g, gs_quantity g))
        (general_stock (handleReceiveOrderSubmit exampleIds ''2024-02-05T12:00:00.000Z''
                          (Some exampleOrder) (receiptLines 10 0) exampleSuppliersDb))
       = [(''g0'', ''Harina'', 4), (''g1'', ''Harina'', 10)]
   \<and> map_option so_status
        (find (\<lambda>d. so_id d = so_id exampleOrder)
           (supplier_orders (handleReceiveOrderSubmit exampleIds ''2024-02-05T12:00:00.000Z''
                               (Some exampleOrder) (receiptLines 10 0) exampleSuppliersDb)))
       = Some RecibidoParcial
   \<and> list_all (\<lambda>item. roi_receivedQuantity item = roi_orderedQuantity item) (receiptLines 10 5)
   \<and> map_option so_status
        (find (\<lambda>d. so_id d = so_id exampleOrder)
           (supplier_orders (handleReceiveOrderSubmit exampleIds ''2024-02-05T12:00:00.000Z''
                               (Some exampleOrder) (receiptLines 10 5) exampleSuppliersDb)))
       = Some Recibido"
proof -
  have h: "find (\<lambda>d. so_id d = so_id exampleOrder) (supplier_orders exampleSuppliersDb)
             = Some exampleOrder"
    by (simp add: exampleSuppliersDb_def)
  have p: "\<exists>item \<in> set (receiptLines 10 0). roi_receivedQuantity item < roi_orderedQuantity item"
    and f: "\<forall>item \<in> set (receiptLines 10 5). roi_receivedQuantity item = roi_orderedQuantity item"
    by (simp_all add: receiptLines_def)
  have g: "map (\<lambda>g. (gs_id g, gs_name g, gs_quantity g)) (general_stock exampleSuppliersDb)
             = [(''g0'', ''Harina'', 4)]"
    "map (\<lambda>g. (gs_id g, gs_name g, gs_quantity g))
       (newStockItems exampleIds ''2024-02-05T12:00:00.000Z'' exampleOrder (receiptLines 10 0))
       = [(''g1'', ''Harina'', 10)]"
    by (simp_all add: exampleSuppliersDb_def newStockItems_def receiptLines_def exampleIds_def
          showNat.simps digitChar_def)
  note r1 = handleReceiveOrderSubmit_receipt [OF h, of exampleIds "''2024-02-05T12:00:00.000Z''"
              "receiptLines 10 0"]
  note r2 = handleReceiveOrderSubmit_receipt [OF h, of exampleIds "''2024-02-05T12:00:00.000Z''"
              "receiptLines 10 5"]
  have s1: "map (\<lambda>g. (gs_id g, gs_name g, gs_quantity g))
        (general_stock (handleReceiveOrderSubmit exampleIds ''2024-02-05T12:00:00.000Z''
                          (Some exampleOrder) (receiptLines 10 0) exampleSuppliersDb))
       = [(''g0'', ''Harina'', 4), (''g1'', ''Harina'', 10)]"
    using r1 g by simp
  have s2: "map_option so_status
        (find (\<lambda>d. so_id d = so_id exampleOrder)
           (supplier_orders (handleReceiveOrderSubmit exampleIds ''2024-02-05T12:00:00.000Z''
                               (Some exampleOrder) (receiptLines 10 0) exampleSuppliersDb)))
       = Some RecibidoParcial"
    using r1 p by blast
  have s3: "map_option so_status
        (find (\<lambda>d. so_id d = so_id exampleOrder)
           (supplier_orders (handleReceiveOrderSubmit exampleIds ''2024-02-05T12:00:00.000Z''
                               (Some exampleOrder) (receiptLines 10 5) exampleSuppliersDb)))
       = Some Recibido"
    using r2 f by blast
  from f have lf: "list_all (\<lambda>item. roi_receivedQuantity item = roi_orderedQuantity item) (receiptLines 10 5)"
    by (simp add: list_all_iff)
  from h p s1 s2 lf s3 show ?thesis by (intro conjI)
qed

end
